theory Spec2Isabelle
  imports Complex_Main "HOL-Library.Word" "HOL-Library.Sublist"
begin

section \<open>Fiducial marker tracker: the command-line program \<open>native/main.cpp\<close>\<close>

text \<open>
  The program parses its arguments, opens a video, skips to a start frame, and for each
  further frame runs OpenCV's marker detector and pose solver. Everything it does beyond
  computing values is made explicit here:
  \<^item> what it writes and which library calls it makes are recorded, in order, as a list
    of events;
  \<^item> how it ends is a \<open>status\<close>: the value returned from \<open>main\<close>, or the C++
    exception that left \<open>main\<close> uncaught (the program has no \<open>try\<close> block);
  \<^item> the library functions it calls (\<open>std::stof\<close>, \<open>cv::VideoCapture\<close>,
    \<open>cv::aruco::getPredefinedDictionary\<close>, \<open>cv::aruco::detectMarkers\<close>,
    \<open>cv::solvePnP\<close>) are not part of the repository; they are the fields of an
    environment record and every general theorem holds for all of them.
  \<open>float\<close> and \<open>double\<close> values are written as the reals they denote. The one
  conversion of the program that can round, a \<open>double\<close> stored into a \<open>float\<close> cell of
  the camera matrix, is written out (\<open>halfToFloat\<close>).
\<close>

subsection \<open>Data\<close>

text \<open>\<open>struct RunConfiguration\<close>; \<open>uint\<close> is a 32-bit unsigned integer.\<close>

record RunConfiguration =
  mediaFilepath :: string
  dictionaryName :: string
  markerSizeMM :: real
  cameraFocalLengthMM :: real
  startFrame :: "32 word"
  endFrame :: "32 word"
  quit :: bool
  printEmptyFrames :: bool
  errorMessage :: string

text \<open>
  The enumerators of OpenCV's \<open>cv::aruco::PREDEFINED_DICTIONARY_NAME\<close>, in the order of
  the header (the API used by the program, \<open>detectMarkers\<close> on a \<open>Ptr<Dictionary>\<close>,
  is the one of OpenCV before 4.7). The first enumerator has the value 0.
\<close>

datatype PREDEFINED_DICTIONARY_NAME =
    DICT_4X4_50 | DICT_4X4_100 | DICT_4X4_250 | DICT_4X4_1000
  | DICT_5X5_50 | DICT_5X5_100 | DICT_5X5_250 | DICT_5X5_1000
  | DICT_6X6_50 | DICT_6X6_100 | DICT_6X6_250 | DICT_6X6_1000
  | DICT_7X7_50 | DICT_7X7_100 | DICT_7X7_250 | DICT_7X7_1000
  | DICT_ARUCO_ORIGINAL
  | DICT_APRILTAG_16h5 | DICT_APRILTAG_25h9 | DICT_APRILTAG_36h10 | DICT_APRILTAG_36h11

text \<open>A \<open>cv::Mat\<close> holding a video frame: its dimensions and its pixel bytes.\<close>

record Mat =
  rows :: int
  cols :: int
  data :: "nat list"

text \<open>\<open>cv::Mat frame;\<close> the default-constructed, empty matrix.\<close>

definition emptyMat :: Mat where
  "emptyMat = \<lparr>rows = 0, cols = 0, data = []\<rparr>"

text \<open>
  A \<open>cv::Mat\<close> of \<open>float\<close>s: rows, columns, channels, and its buffer of
  \<open>rows * cols * channels\<close> floats, row after row. A cell that was never assigned holds no
  determinate value: \<open>None\<close>.
\<close>

record FloatMat =
  mrows :: nat
  mcols :: nat
  mchannels :: nat
  cells :: "real option list"

text \<open>\<open>cv::Mat m(r, c, type);\<close> allocates the buffer and assigns nothing.\<close>

definition newFloatMat :: "nat \<Rightarrow> nat \<Rightarrow> nat \<Rightarrow> FloatMat" where
  "newFloatMat r c ch = \<lparr>mrows = r, mcols = c, mchannels = ch, cells = replicate (r * c * ch) None\<rparr>"

text \<open>
  \<open>m.at<float>(i0, i1)\<close> is the float number \<open>i1\<close> of row \<open>i0\<close>, a row being
  \<open>cols * channels\<close> floats long: the channel count enters the row length and not the
  column offset. (\<open>m.at<float>(i0)\<close> on a one-column matrix is \<open>m.at<float>(i0, 0)\<close>.) Every
  access of the program lies inside the buffer.
\<close>

definition at_float :: "FloatMat \<Rightarrow> nat \<Rightarrow> nat \<Rightarrow> real option" where
  "at_float m i0 i1 = cells m ! (i0 * (mcols m * mchannels m) + i1)"

definition assign_at :: "FloatMat \<Rightarrow> nat \<Rightarrow> nat \<Rightarrow> real \<Rightarrow> FloatMat" where
  "assign_at m i0 i1 v = m\<lparr>cells := (cells m)[i0 * (mcols m * mchannels m) + i1 := Some v]\<rparr>"

text \<open>A sequence of assignments \<open>m.at<float>(i0, i1) = v;\<close> in program order.\<close>

fun assign_all :: "FloatMat \<Rightarrow> (nat \<times> nat \<times> real) list \<Rightarrow> FloatMat" where
  "assign_all m [] = m"
| "assign_all m ((i0, i1, v) # as) = assign_all (assign_at m i0 i1 v) as"

type_synonym Point2f = "real \<times> real"
type_synonym Vec3 = "real \<times> real \<times> real"

text \<open>The exceptions the library calls can throw.\<close>

datatype exn = invalid_argument | out_of_range | cv_Exception

text \<open>
  The library and the file system. \<open>stof\<close> throws or returns the parsed number.
  \<open>VideoCapture path\<close> is \<open>None\<close> when the stream cannot be opened, otherwise the
  frames that successive \<open>read\<close> calls deliver. \<open>detectMarkers\<close> gives
  \<open>markerCorners\<close> and \<open>markerIds\<close>; \<open>solvePnP\<close> gives its return value with
  \<open>rvec\<close> and \<open>tvec\<close>. \<open>uninitFloat\<close> is the indeterminate value of a \<open>float\<close>
  member that was never assigned.
\<close>

record 'd env =
  stof :: "string \<Rightarrow> exn + real"
  VideoCapture :: "string \<Rightarrow> Mat list option"
  getPredefinedDictionary :: "PREDEFINED_DICTIONARY_NAME \<Rightarrow> 'd"
  detectMarkers :: "Mat \<Rightarrow> 'd \<Rightarrow> exn + (Point2f list list \<times> int list)"
  solvePnP :: "Vec3 list \<Rightarrow> Point2f list \<Rightarrow> FloatMat \<Rightarrow> FloatMat
                 \<Rightarrow> exn + (bool \<times> Vec3 \<times> Vec3)"
  uninitFloat :: real

text \<open>
  What a run does, in order: a line on \<open>std::cerr\<close>, a line on \<open>std::cout\<close>, the
  construction of the \<open>VideoCapture\<close> on a path, a call of \<open>video.read\<close> with its
  result, a call of \<open>solvePnP\<close> with its four inputs.
\<close>

datatype event =
    Cerr string
  | Cout string
  | VideoOpen string
  | VideoRead bool
  | SolvePnP "Vec3 list" "Point2f list" FloatMat FloatMat

text \<open>
  \<open>main\<close> returns an \<open>int\<close>, or an exception leaves \<open>main\<close> uncaught and
  \<open>std::terminate\<close> aborts the process. The events of a run are what the program itself
  writes and calls; a diagnostic that the C++ runtime prints when it aborts is not among
  them.
\<close>

datatype status = Returned int | Terminated exn

subsection \<open>\<open>startsWith\<close>\<close>

text \<open>
  \<^verbatim>\<open>int end = std::min(str.length(), strlen(match));
  for(int i=0; i < end; i++) { if(str[i] != match[i]) { return false; } }
  return true;\<close>
  Both indices stay below \<open>end\<close>, so every read is in range.
\<close>

function startsWith_from :: "nat \<Rightarrow> nat \<Rightarrow> string \<Rightarrow> string \<Rightarrow> bool" where
  "startsWith_from i end str match =
     (if i < end
      then (if str ! i \<noteq> match ! i then False else startsWith_from (Suc i) end str match)
      else True)"
  by pat_completeness auto
termination
  by (relation "measure (\<lambda>(i, end, str, match). end - i)") auto

declare startsWith_from.simps [simp del]

definition startsWith :: "string \<Rightarrow> string \<Rightarrow> bool" where
  "startsWith str match = startsWith_from 0 (min (length str) (length match)) str match"

subsection \<open>\<open>parseArgs\<close>\<close>

definition usageMessage :: string where
  "usageMessage =
     ''Usage: app path_to_mediafile dictionary_name marker_size_mm\<newline>Optional Arguments: --focalmm=[The focal length of the camera in mm]\<newline>''"

definition notEnoughMessage :: string where
  "notEnoughMessage =
     ''Not enough arguments. Usage: path_to_mediafile dictionary_name marker_size_mm''"

text \<open>The first loop: is some \<open>argv[i]\<close>, \<open>0 \<le> i < argc\<close>, equal to \<open>--help\<close> or \<open>-h\<close>?\<close>

fun helpRequested :: "string list \<Rightarrow> bool" where
  "helpRequested [] = False"
| "helpRequested (a # as) = (if a = ''--help'' \<or> a = ''-h'' then True else helpRequested as)"

text \<open>The last loop, over \<open>argv[4], ..., argv[argc-1]\<close>. The \<open>-v\<close> branch is empty.\<close>

fun extraArgs :: "string list \<Rightarrow> RunConfiguration \<Rightarrow> RunConfiguration" where
  "extraArgs [] cfg = cfg"
| "extraArgs (arg # as) cfg =
     (let cfg1 = (if startsWith arg ''-v'' \<or> startsWith arg ''--verbose'' then cfg else cfg);
          cfg2 = (if startsWith arg ''--print-empty-frames''
                  then cfg1\<lparr>printEmptyFrames := True\<rparr> else cfg1)
      in extraArgs as cfg2)"

text \<open>
  \<open>argv\<close> is the list of the \<open>argc\<close> argument strings, \<open>argv[0]\<close> first.
  \<open>RunConfiguration cfg;\<close> default-constructs the strings and leaves \<open>markerSizeMM\<close>
  unassigned until \<open>std::stof\<close> has returned; an exception of \<open>std::stof\<close> is not caught.
\<close>

definition parseArgs :: "'d env \<Rightarrow> string list \<Rightarrow> exn + RunConfiguration" where
  "parseArgs E argv =
     (let cfg = \<lparr>mediaFilepath = [], dictionaryName = [], markerSizeMM = uninitFloat E,
                 cameraFocalLengthMM = 1, startFrame = 0, endFrame = 0, quit = False,
                 printEmptyFrames = False, errorMessage = []\<rparr>
      in if helpRequested argv
         then Inr (cfg\<lparr>quit := True, errorMessage := usageMessage\<rparr>)
         else if length argv < 4
         then Inr (cfg\<lparr>errorMessage := notEnoughMessage, quit := True\<rparr>)
         else (case stof E (argv ! 3) of
                 Inl e \<Rightarrow> Inl e
               | Inr m \<Rightarrow>
                   Inr (extraArgs (drop 4 argv)
                          (cfg\<lparr>mediaFilepath := argv ! 1, dictionaryName := argv ! 2,
                               markerSizeMM := m\<rparr>))))"

subsection \<open>\<open>getDictFromName\<close>\<close>

text \<open>The six entries stored in the \<open>std::unordered_map\<close>.\<close>

definition supported :: "(string \<times> PREDEFINED_DICTIONARY_NAME) list" where
  "supported =
     [(''DEFAULT'', DICT_ARUCO_ORIGINAL),
      (''ARUCO'', DICT_ARUCO_ORIGINAL),
      (''APRILTAG_16H5'', DICT_APRILTAG_16h5),
      (''APRILTAG_25H9'', DICT_APRILTAG_25h9),
      (''APRILTAG_36H10'', DICT_APRILTAG_36h10),
      (''APRILTAG_36H11'', DICT_APRILTAG_36h11)]"

text \<open>
  \<open>supported[name]\<close>: \<open>operator[]\<close> of \<open>std::unordered_map\<close> inserts a value-initialised
  entry for an absent key and returns it; a value-initialised enumeration is 0, the
  enumerator \<open>DICT_4X4_50\<close>.
\<close>

definition supported_at :: "string \<Rightarrow> PREDEFINED_DICTIONARY_NAME" where
  "supported_at name = (case map_of supported name of Some d \<Rightarrow> d | None \<Rightarrow> DICT_4X4_50)"

definition getDictFromName :: "'d env \<Rightarrow> string \<Rightarrow> 'd" where
  "getDictFromName E name = getPredefinedDictionary E (supported_at name)"

subsection \<open>Writing an \<open>int\<close> to a stream\<close>

text \<open>Decimal digits, most significant first; a negative value has a leading minus sign.\<close>

function show_nat :: "nat \<Rightarrow> string" where
  "show_nat n =
     (if n < 10 then [''0123456789'' ! n]
      else show_nat (n div 10) @ [''0123456789'' ! (n mod 10)])"
  by pat_completeness auto
termination
  by (relation "measure (\<lambda>n. n)") auto

declare show_nat.simps [simp del]

definition show_int :: "int \<Rightarrow> string" where
  "show_int k = (if k < 0 then CHR ''-'' # show_nat (nat (- k)) else show_nat (nat k))"

subsection \<open>\<open>main\<close>\<close>

text \<open>
  The line written for a frame without markers:
  \<^verbatim>\<open>std::cout << "{\"frame_id\":" << i << ", detections:[]}" << std::endl;\<close>
  where \<open>i\<close> is the \<open>int\<close> loop counter.
\<close>

definition emptyFrameLine :: "32 word \<Rightarrow> string" where
  \<open>emptyFrameLine i = ''{"frame_id":'' @ show_int (sint i) @ '', detections:[]}''\<close>

text \<open>The four rows of \<open>objPoints\<close>.\<close>

definition objPoints :: "RunConfiguration \<Rightarrow> Vec3 list" where
  "objPoints cfg =
     [(- markerSizeMM cfg / 2, markerSizeMM cfg / 2, 0),
      (markerSizeMM cfg / 2, markerSizeMM cfg / 2, 0),
      (markerSizeMM cfg / 2, - markerSizeMM cfg / 2, 0),
      (- markerSizeMM cfg / 2, - markerSizeMM cfg / 2, 0)]"

text \<open>
  \<open>frame.cols/2.0\<close> is a \<open>double\<close>, exact for every \<open>int\<close>; stored into a \<open>float\<close> cell
  it is rounded to 24 significant bits, to nearest and ties to even. \<open>bitLength n\<close> is
  the number of binary digits of \<open>n\<close>, \<open>roundTo24 n\<close> the nearest integer with at most 24
  significant bits, and \<open>halfToFloat k\<close> the \<open>float\<close> that holds \<open>k/2.0\<close>.
\<close>

function bitLength :: "nat \<Rightarrow> nat" where
  "bitLength n = (if n = 0 then 0 else Suc (bitLength (n div 2)))"
  by pat_completeness auto
termination
  by (relation "measure (\<lambda>n. n)") auto

declare bitLength.simps [simp del]

definition roundTo24 :: "nat \<Rightarrow> nat" where
  "roundTo24 n =
     (let s = bitLength n - 24; q = n div 2 ^ s; r = n mod 2 ^ s
      in if 2 ^ s < 2 * r \<or> (2 * r = 2 ^ s \<and> odd q) then (q + 1) * 2 ^ s else q * 2 ^ s)"

definition halfToFloat :: "int \<Rightarrow> real" where
  "halfToFloat k =
     (if k < 0 then - (real (roundTo24 (nat (- k))) / 2) else real (roundTo24 (nat k)) / 2)"

text \<open>
  \<^verbatim>\<open>cv::Mat cameraMatrix(3, 3, CV_32FC3);\<close> is a buffer of 27 floats, three rows of
  nine. The nine assignments \<open>cameraMatrix.at<float>(r,c) = ...\<close> fill the first three
  floats of each row and leave the other eighteen unassigned. \<open>frame\<close> is the matrix
  that the skipping loop has left in the variable \<open>frame\<close>.
\<close>

definition cameraMatrix :: "RunConfiguration \<Rightarrow> Mat \<Rightarrow> FloatMat" where
  "cameraMatrix cfg frame =
     assign_all (newFloatMat 3 3 3)
       [(0, 0, cameraFocalLengthMM cfg),
        (0, 1, 0),
        (0, 2, halfToFloat (cols frame)),
        (1, 0, 0),
        (1, 1, cameraFocalLengthMM cfg),
        (1, 2, halfToFloat (rows frame)),
        (2, 0, 0),
        (2, 1, 0),
        (2, 2, 1)]"

text \<open>\<^verbatim>\<open>cv::Mat cameraDistortion(4, 1, CV_32F);\<close> and its four assignments.\<close>

definition cameraDistortion :: FloatMat where
  "cameraDistortion = assign_all (newFloatMat 4 1 1) [(0, 0, 0), (1, 0, 0), (2, 0, 0), (3, 0, 0)]"

text \<open>
  \<^verbatim>\<open>for(int i=0; i < cfg.startFrame; i++) { if(!video.read(frame)) { ...; return -1; } }\<close>
  The comparison converts \<open>i\<close> to \<open>unsigned\<close>. The result is the events of the loop and,
  unless a read failed, the contents of \<open>frame\<close> and the frames still unread.
\<close>

fun skipLoop :: "32 word \<Rightarrow> 32 word \<Rightarrow> Mat \<Rightarrow> Mat list \<Rightarrow> event list \<times> (Mat \<times> Mat list) option"
  where
  "skipLoop i s frame [] =
     (if i < s then ([VideoRead False], None) else ([], Some (frame, [])))"
| "skipLoop i s frame (f # fs) =
     (if i < s
      then (case skipLoop (i + 1) s f fs of (evs, r) \<Rightarrow> (VideoRead True # evs, r))
      else ([], Some (frame, f # fs)))"

text \<open>
  \<^verbatim>\<open>for (size_t i = 0; i < markerCount; i++) {
    cv::solvePnP(objPoints, markerCorners.at(i), cameraMatrix, cameraDistortion,
                 rvecs.at(i), tvecs.at(i)); }\<close>
  The value \<open>solvePnP\<close> returns is not looked at; \<open>rvecs\<close> and \<open>tvecs\<close> are filled and
  go out of scope at the end of the iteration. The result is the calls made and the
  exception, if one was thrown.
\<close>

fun solveLoop :: "'d env \<Rightarrow> Vec3 list \<Rightarrow> FloatMat \<Rightarrow> FloatMat \<Rightarrow> Point2f list list
                    \<Rightarrow> event list \<times> exn option" where
  "solveLoop E obj cam dc [] = ([], None)"
| "solveLoop E obj cam dc (c # cs) =
     (case solvePnP E obj c cam dc of
        Inl e \<Rightarrow> ([SolvePnP obj c cam dc], Some e)
      | Inr pose \<Rightarrow>
          (case solveLoop E obj cam dc cs of (evs, r) \<Rightarrow> (SolvePnP obj c cam dc # evs, r)))"

text \<open>
  The body of the main loop after a successful \<open>video.read(frame)\<close>, for the counter
  \<open>i\<close>: \<open>detectMarkers\<close>, then the pose loop when \<open>markerIds\<close> is not empty, else the
  line for an empty frame when \<open>printEmptyFrames\<close> is set. \<open>printJSONL\<close> is not called.
\<close>

definition frameBody :: "'d env \<Rightarrow> RunConfiguration \<Rightarrow> 'd \<Rightarrow> FloatMat \<Rightarrow> 32 word \<Rightarrow> Mat
                           \<Rightarrow> event list \<times> exn option" where
  "frameBody E cfg dictionary cam i frame =
     (case detectMarkers E frame dictionary of
        Inl e \<Rightarrow> ([], Some e)
      | Inr (markerCorners, markerIds) \<Rightarrow>
          if markerIds \<noteq> []
          then solveLoop E (objPoints cfg) cam cameraDistortion markerCorners
          else if printEmptyFrames cfg then ([Cout (emptyFrameLine i)], None)
          else ([], None))"

text \<open>
  \<^verbatim>\<open>for(int i=cfg.startFrame; i < cfg.endFrame || cfg.endFrame == 0; i++) {
    if(!video.read(frame)) { break; }  ... }
  video.release(); return 0;\<close>
  The counter is an \<open>int\<close> compared with a \<open>uint\<close>: it is kept as its 32-bit pattern,
  compared unsigned and written signed. (Incrementing an \<open>int\<close> past its maximum is
  undefined in C++; here it wraps, which only a stream of \<open>2^31\<close> frames could reach.)
\<close>

fun mainLoop :: "'d env \<Rightarrow> RunConfiguration \<Rightarrow> 'd \<Rightarrow> FloatMat \<Rightarrow> 32 word \<Rightarrow> Mat list
                   \<Rightarrow> event list \<times> status" where
  "mainLoop E cfg dictionary cam i [] =
     (if i < endFrame cfg \<or> endFrame cfg = 0 then ([VideoRead False], Returned 0)
      else ([], Returned 0))"
| "mainLoop E cfg dictionary cam i (f # fs) =
     (if i < endFrame cfg \<or> endFrame cfg = 0
      then (case frameBody E cfg dictionary cam i f of
              (evs, Some e) \<Rightarrow> (VideoRead True # evs, Terminated e)
            | (evs, None) \<Rightarrow>
                (case mainLoop E cfg dictionary cam (i + 1) fs of
                   (evs', st) \<Rightarrow> (VideoRead True # evs @ evs', st)))
      else ([], Returned 0))"

text \<open>\<open>main\<close> from the construction of the \<open>VideoCapture\<close> on, for a configuration.\<close>

definition run :: "'d env \<Rightarrow> RunConfiguration \<Rightarrow> event list \<times> status" where
  "run E cfg =
     (case VideoCapture E (mediaFilepath cfg) of
        None \<Rightarrow>
          ([VideoOpen (mediaFilepath cfg),
            Cerr (''Failed to open video stream '' @ mediaFilepath cfg)], Returned (- 1))
      | Some video \<Rightarrow>
          (case skipLoop 0 (startFrame cfg) emptyMat video of
             (evs, None) \<Rightarrow>
               (VideoOpen (mediaFilepath cfg) # evs
                  @ [Cerr ''Start frame was greater than video length.''], Returned (- 1))
           | (evs, Some (frame, rest)) \<Rightarrow>
               (case mainLoop E cfg (getDictFromName E (dictionaryName cfg))
                       (cameraMatrix cfg frame) (startFrame cfg) rest of
                  (evs', st) \<Rightarrow> (VideoOpen (mediaFilepath cfg) # evs @ evs', st))))"

definition main :: "'d env \<Rightarrow> string list \<Rightarrow> event list \<times> status" where
  "main E argv =
     (case parseArgs E argv of
        Inl e \<Rightarrow> ([], Terminated e)
      | Inr cfg \<Rightarrow>
          if quit cfg then ([Cerr (errorMessage cfg)], Returned (- 1)) else run E cfg)"

subsection \<open>\<open>printJSONL\<close>\<close>

text \<open>
  The function that writes the record of a frame with its detections,
  \<^verbatim>\<open>{"frame_id":N,"detections":[{"marker_id":M,},...]}\<close>; the corners and the two
  pose vectors are parameters it does not use. The items are separated by a comma, written
  after every item but the last. \<open>main\<close> does not call it.
\<close>

fun detectionItems :: "int list \<Rightarrow> string" where
  \<open>detectionItems [] = []\<close>
| \<open>detectionItems [m] = ''{"marker_id":'' @ show_int m @ '',}''\<close>
| \<open>detectionItems (m # ms) = ''{"marker_id":'' @ show_int m @ '',},'' @ detectionItems ms\<close>

definition printJSONL :: "int \<Rightarrow> int list \<Rightarrow> Point2f list list \<Rightarrow> Vec3 list \<Rightarrow> Vec3 list \<Rightarrow> event"
  where
  \<open>printJSONL frame markerIds markerCorners markerTranslations markerRotations =
     Cout (''{"frame_id":'' @ show_int frame @ '',"detections":['' @ detectionItems markerIds
             @ '']}'')\<close>

text \<open>The lines a run wrote on standard output, in order.\<close>

fun stdout_of :: "event list \<Rightarrow> string list" where
  "stdout_of [] = []"
| "stdout_of (Cout l # evs) = l # stdout_of evs"
| "stdout_of (ev # evs) = stdout_of evs"

text \<open>The camera matrices a run handed to \<open>solvePnP\<close>, in order.\<close>

fun cameras_of :: "event list \<Rightarrow> FloatMat list" where
  "cameras_of [] = []"
| "cameras_of (SolvePnP obj c cam dc # evs) = cam # cameras_of evs"
| "cameras_of (ev # evs) = cameras_of evs"

subsection \<open>An example environment\<close>

text \<open>
  A stream \<open>video.mp4\<close> of three 640 by 480 frames, their pixels abridged to a tag;
  the detector finds marker 7 in the second frame and nothing in the other two. \<open>std::stof\<close> is given at the strings the
  examples pass to it: \<open>50.0\<close> converts to 50, and the others (such as \<open>abc\<close>) are
  strings without a leading number, for which \<open>std::stof\<close> throws
  \<open>std::invalid_argument\<close>.
\<close>

definition blankFrame :: Mat where
  "blankFrame = \<lparr>rows = 480, cols = 640, data = []\<rparr>"

definition markerFrame :: Mat where
  "markerFrame = \<lparr>rows = 480, cols = 640, data = [1]\<rparr>"

definition exampleCorners :: "Point2f list" where
  "exampleCorners = [(10, 10), (20, 10), (20, 20), (10, 20)]"

definition exampleEnv :: "PREDEFINED_DICTIONARY_NAME env" where
  "exampleEnv =
     \<lparr>stof = (\<lambda>s. if s = ''50.0'' then Inr 50 else Inl invalid_argument),
      VideoCapture =
        (\<lambda>p. if p = ''video.mp4'' then Some [blankFrame, markerFrame, blankFrame] else None),
      getPredefinedDictionary = (\<lambda>d. d),
      detectMarkers =
        (\<lambda>f d. if data f = [] then Inr ([], []) else Inr ([exampleCorners], [7])),
      solvePnP = (\<lambda>obj c cam dc. Inr (True, (0, 0, 0), (0, 0, 1))),
      uninitFloat = 0\<rparr>"

text \<open>
  The condition of being degenerate, for the four corners of a marker: all on one line.
  The program has no such test; it is here to say which corners the examples below use.
\<close>

fun cross :: "Point2f \<Rightarrow> Point2f \<Rightarrow> Point2f \<Rightarrow> real" where
  "cross (x0, y0) (x1, y1) (x2, y2) = (x1 - x0) * (y2 - y0) - (y1 - y0) * (x2 - x0)"

fun degenerate :: "Point2f list \<Rightarrow> bool" where
  "degenerate [a, b, c, d] =
     (cross a b c = 0 \<and> cross a b d = 0 \<and> cross a c d = 0 \<and> cross b c d = 0)"
| "degenerate cs = False"

text \<open>
  A stream \<open>line.mp4\<close> of two frames: in the first the detector finds marker 9 with its
  four corners on one line, in the second nothing. The pose solver is a parameter of
  this environment; the two solvers are the two ways a library call can answer such
  corners: by throwing, or by returning \<open>false\<close> with vectors that mean nothing.
\<close>

definition collinearCorners :: "Point2f list" where
  "collinearCorners = [(10, 10), (20, 20), (30, 30), (40, 40)]"

definition degenerateFrame :: Mat where
  "degenerateFrame = \<lparr>rows = 480, cols = 640, data = [2]\<rparr>"

definition degenerateEnv ::
  "(Vec3 list \<Rightarrow> Point2f list \<Rightarrow> FloatMat \<Rightarrow> FloatMat \<Rightarrow> exn + (bool \<times> Vec3 \<times> Vec3))
     \<Rightarrow> PREDEFINED_DICTIONARY_NAME env" where
  "degenerateEnv solve =
     \<lparr>stof = (\<lambda>s. if s = ''50.0'' then Inr 50 else Inl invalid_argument),
      VideoCapture = (\<lambda>p. if p = ''line.mp4'' then Some [degenerateFrame, blankFrame] else None),
      getPredefinedDictionary = (\<lambda>d. d),
      detectMarkers =
        (\<lambda>f d. if data f = [] then Inr ([], []) else Inr ([collinearCorners], [9])),
      solvePnP = solve,
      uninitFloat = 0\<rparr>"

definition throwingSolve ::
  "Vec3 list \<Rightarrow> Point2f list \<Rightarrow> FloatMat \<Rightarrow> FloatMat \<Rightarrow> exn + (bool \<times> Vec3 \<times> Vec3)" where
  "throwingSolve obj c cam dc =
     (if degenerate c then Inl cv_Exception else Inr (True, (0, 0, 0), (0, 0, 1)))"

definition returningSolve ::
  "Vec3 list \<Rightarrow> Point2f list \<Rightarrow> FloatMat \<Rightarrow> FloatMat \<Rightarrow> exn + (bool \<times> Vec3 \<times> Vec3)" where
  "returningSolve obj c cam dc =
     (if degenerate c then Inr (False, (0, 0, 0), (0, 0, 0)) else Inr (True, (0, 0, 0), (0, 0, 1)))"

text \<open>A configuration with start frame 1 and empty frames reported.\<close>

definition exampleCfg :: RunConfiguration where
  "exampleCfg =
     \<lparr>mediaFilepath = ''video.mp4'', dictionaryName = ''ARUCO'', markerSizeMM = 50,
      cameraFocalLengthMM = 1, startFrame = 1, endFrame = 0, quit = False,
      printEmptyFrames = True, errorMessage = []\<rparr>"

section \<open>Properties\<close>

subsection \<open>Auxiliary facts\<close>

lemmas example_defs =
  exampleEnv_def blankFrame_def markerFrame_def exampleCorners_def exampleCfg_def
  degenerateEnv_def degenerateFrame_def collinearCorners_def throwingSolve_def
  returningSolve_def

lemmas run_defs =
  main_def parseArgs_def run_def emptyMat_def frameBody_def getDictFromName_def
  supported_at_def supported_def objPoints_def cameraMatrix_def cameraDistortion_def
  newFloatMat_def assign_at_def at_float_def halfToFloat_def roundTo24_def bitLength.simps
  startsWith_def startsWith_from.simps emptyFrameLine_def show_int_def show_nat.simps

lemma replicate_numeral: "replicate (numeral k) x = x # replicate (pred_numeral k) x"
  by (simp add: numeral_eq_Suc)

text \<open>
  The camera matrix as a buffer: the focal length at floats 0 and 10, the principal point
  at floats 2 and 11, and eighteen floats never assigned.
\<close>

lemma cameraMatrix_cells:
  "cameraMatrix cfg frame =
     \<lparr>mrows = 3, mcols = 3, mchannels = 3,
      cells =
        [Some (cameraFocalLengthMM cfg), Some 0, Some (halfToFloat (cols frame)),
         None, None, None, None, None, None,
         Some 0, Some (cameraFocalLengthMM cfg), Some (halfToFloat (rows frame)),
         None, None, None, None, None, None,
         Some 0, Some 0, Some 1,
         None, None, None, None, None, None]\<rparr>"
  by (simp add: cameraMatrix_def newFloatMat_def assign_at_def replicate_numeral)

lemma cameraMatrix_focal:
  "at_float (cameraMatrix cfg frame) 0 0 = Some (cameraFocalLengthMM cfg)"
  "at_float (cameraMatrix cfg frame) 1 1 = Some (cameraFocalLengthMM cfg)"
  by (simp_all add: cameraMatrix_cells at_float_def)

lemma cameraMatrix_principal_point:
  "at_float (cameraMatrix cfg frame) 0 2 = Some (halfToFloat (cols frame))"
  "at_float (cameraMatrix cfg frame) 1 2 = Some (halfToFloat (rows frame))"
  by (simp_all add: cameraMatrix_cells at_float_def)

text \<open>
  Storing \<open>k/2.0\<close> into a \<open>float\<close> is exact below \<open>2^24\<close> and rounds above:
  16777217 / 2 is stored as 8388608.
\<close>

lemma bitLength_le: "n < 2 ^ m \<Longrightarrow> bitLength n \<le> m"
proof (induction m arbitrary: n)
  case 0
  then show ?case by (simp add: bitLength.simps [of 0])
next
  case (Suc m)
  show ?case
  proof (cases "n = 0")
    case True
    then show ?thesis by (simp add: bitLength.simps [of 0])
  next
    case False
    from Suc.prems have "n div 2 < 2 ^ m" by simp
    then have "bitLength (n div 2) \<le> m" by (rule Suc.IH)
    with False show ?thesis by (simp add: bitLength.simps [of n])
  qed
qed

lemma roundTo24_exact: "n < 2 ^ 24 \<Longrightarrow> roundTo24 n = n"
  using bitLength_le [of n 24] by (simp add: roundTo24_def)

lemma halfToFloat_exact: "\<bar>k\<bar> < 2 ^ 24 \<Longrightarrow> halfToFloat k = real_of_int k / 2"
proof -
  assume a: "\<bar>k\<bar> < 2 ^ 24"
  show ?thesis
  proof (cases "k < 0")
    case True
    with a have "nat (- k) < 2 ^ 24" by (simp add: nat_less_iff)
    then have "roundTo24 (nat (- k)) = nat (- k)" by (rule roundTo24_exact)
    with True show ?thesis by (simp add: halfToFloat_def)
  next
    case False
    with a have "nat k < 2 ^ 24" by (simp add: nat_less_iff)
    then have "roundTo24 (nat k) = nat k" by (rule roundTo24_exact)
    with False show ?thesis by (simp add: halfToFloat_def)
  qed
qed

lemma halfToFloat_rounds: "halfToFloat 16777217 = 8388608"
  by (simp add: halfToFloat_def roundTo24_def bitLength.simps)

lemma halfToFloat_0: "halfToFloat 0 = 0"
  by (simp add: halfToFloat_exact)

text \<open>\<open>startsWith\<close> compares the two strings on the length of the shorter one.\<close>

lemma startsWith_from_iff:
  "startsWith_from i n str m \<longleftrightarrow> (\<forall>j. i \<le> j \<and> j < n \<longrightarrow> str ! j = m ! j)"
proof (induction i n str m rule: startsWith_from.induct)
  case (1 i n str m)
  show ?case
  proof (cases "i < n")
    case False
    then show ?thesis by (auto simp add: startsWith_from.simps [of i])
  next
    case True
    show ?thesis
    proof (cases "str ! i = m ! i")
      case False
      with True show ?thesis by (auto simp add: startsWith_from.simps [of i])
    next
      case eq: True
      have "(\<forall>j. i \<le> j \<and> j < n \<longrightarrow> str ! j = m ! j)
              \<longleftrightarrow> (\<forall>j. Suc i \<le> j \<and> j < n \<longrightarrow> str ! j = m ! j)"
        using eq by (metis Suc_leD Suc_leI le_neq_implies_less)
      with True eq 1 show ?thesis by (simp add: startsWith_from.simps [of i])
    qed
  qed
qed

lemma startsWith_take:
  "startsWith str m \<longleftrightarrow>
     take (min (length str) (length m)) str = take (min (length str) (length m)) m"
  by (auto simp add: startsWith_def startsWith_from_iff list_eq_iff_nth_eq)

lemma prefix_iff_take: "prefix xs ys \<longleftrightarrow> length xs \<le> length ys \<and> xs = take (length xs) ys"
  by (metis append_eq_conv_conj prefix_def prefix_length_le take_is_prefix)

lemma startsWith_prefix: "startsWith str m \<longleftrightarrow> prefix str m \<or> prefix m str"
proof (cases "length str \<le> length m")
  case True
  then have "startsWith str m \<longleftrightarrow> prefix str m"
    by (simp add: startsWith_take prefix_iff_take min_absorb1)
  moreover have "prefix m str \<Longrightarrow> prefix str m"
    using True by (simp add: prefix_iff_take)
  ultimately show ?thesis by blast
next
  case False
  then have "startsWith str m \<longleftrightarrow> prefix m str"
    by (auto simp add: startsWith_take prefix_iff_take min_absorb2)
  moreover have "prefix str m \<Longrightarrow> prefix m str"
    using False by (simp add: prefix_iff_take)
  ultimately show ?thesis by blast
qed

text \<open>The two loops of \<open>parseArgs\<close>.\<close>

lemma helpRequested_iff:
  "helpRequested argv \<longleftrightarrow> ''--help'' \<in> set argv \<or> ''-h'' \<in> set argv"
  by (induction argv) auto

lemma extraArgs_eq:
  "extraArgs as cfg =
     cfg\<lparr>printEmptyFrames :=
           printEmptyFrames cfg \<or> (\<exists>a\<in>set as. startsWith a ''--print-empty-frames'')\<rparr>"
  by (induction as arbitrary: cfg) (auto simp add: Let_def)

lemma parseArgs_focal: "parseArgs E argv = Inr cfg \<Longrightarrow> cameraFocalLengthMM cfg = 1"
  by (auto simp add: parseArgs_def Let_def extraArgs_eq split: if_splits sum.splits)

lemma parseArgs_startFrame: "parseArgs E argv = Inr cfg \<Longrightarrow> startFrame cfg = 0"
  by (auto simp add: parseArgs_def Let_def extraArgs_eq split: if_splits sum.splits)

lemma parseArgs_positional:
  assumes "\<not> helpRequested argv" and "4 \<le> length argv" and "stof E (argv ! 3) = Inr m"
  shows "\<exists>cfg. parseArgs E argv = Inr cfg \<and> \<not> quit cfg \<and> mediaFilepath cfg = argv ! 1
           \<and> dictionaryName cfg = argv ! 2 \<and> markerSizeMM cfg = m"
  using assms by (simp add: parseArgs_def Let_def extraArgs_eq)

lemma focalmm_no_match: "\<not> startsWith (''--focalmm='' @ F) ''--print-empty-frames''"
proof -
  have "(''--focalmm='' @ F) ! 2 \<noteq> ''--print-empty-frames'' ! 2" by simp
  moreover have "2 < min (length (''--focalmm='' @ F)) (length ''--print-empty-frames'')"
    by simp
  ultimately show ?thesis unfolding startsWith_def startsWith_from_iff by blast
qed

lemma helpRequested_insert:
  "x \<noteq> ''--help'' \<Longrightarrow> x \<noteq> ''-h'' \<Longrightarrow>
   helpRequested (pre @ x # post) = helpRequested (pre @ post)"
  by (auto simp add: helpRequested_iff)

lemma parseArgs_focalmm:
  assumes "4 \<le> length pre"
  shows "parseArgs E (pre @ (''--focalmm='' @ F) # post) = parseArgs E (pre @ post)"
proof -
  let ?x = "''--focalmm='' @ F"
  have h: "helpRequested (pre @ ?x # post) = helpRequested (pre @ post)"
    by (rule helpRequested_insert) simp_all
  have n: "(pre @ ?x # post) ! 1 = (pre @ post) ! 1"
    "(pre @ ?x # post) ! 2 = (pre @ post) ! 2"
    "(pre @ ?x # post) ! 3 = (pre @ post) ! 3"
    using assms by (simp_all add: nth_append)
  have d: "drop 4 (pre @ ?x # post) = drop 4 pre @ ?x # post"
    "drop 4 (pre @ post) = drop 4 pre @ post"
    using assms by simp_all
  have l: "\<not> length (pre @ ?x # post) < 4" "\<not> length (pre @ post) < 4"
    using assms by simp_all
  show ?thesis
    unfolding parseArgs_def h n d Let_def extraArgs_eq using l focalmm_no_match [of F]
    by (simp split: sum.splits)
qed

text \<open>The skipping loop reads exactly \<open>startFrame\<close> frames, or fails at the end of the stream.\<close>

lemma unat_plus_one: "(i :: 32 word) < s \<Longrightarrow> unat (i + 1) = Suc (unat i)"
proof -
  assume "i < s"
  then have "unat i < unat s" by (simp add: word_less_nat_alt)
  moreover have "unat s < 2 ^ 32" using unsigned_less [of s] by simp
  ultimately have "unat i + 1 < 2 ^ 32" by simp
  then show ?thesis by (simp add: unat_word_ariths)
qed

lemma skipLoop_enough:
  "i \<le> s \<Longrightarrow> unat s - unat i \<le> length video \<Longrightarrow>
   skipLoop i s frame video =
     (replicate (unat s - unat i) (VideoRead True),
      Some (if unat s - unat i = 0 then frame else video ! (unat s - unat i - 1),
            drop (unat s - unat i) video))"
proof (induction video arbitrary: i frame)
  case Nil
  then have "\<not> i < s" by (simp add: word_less_nat_alt word_le_nat_alt)
  with Nil show ?case by simp
next
  case (Cons f fs)
  show ?case
  proof (cases "i < s")
    case False
    with Cons.prems have "unat s - unat i = 0"
      by (simp add: word_less_nat_alt word_le_nat_alt)
    with False show ?thesis by simp
  next
    case True
    then have u: "unat (i + 1) = Suc (unat i)" by (rule unat_plus_one)
    from True have lt: "unat i < unat s" by (simp add: word_less_nat_alt)
    then have le: "i + 1 \<le> s" using u by (simp add: word_le_nat_alt)
    have k: "unat s - unat (i + 1) \<le> length fs" using Cons.prems(2) u lt by simp
    obtain k where kdef: "unat s - unat i = Suc k" using lt by (metis Suc_diff_Suc)
    then have k': "unat s - unat (i + 1) = k" using u by simp
    show ?thesis
      using Cons.IH [OF le k, of f] True kdef k' by (simp add: nth_Cons')
  qed
qed

lemma skipLoop_short:
  "i \<le> s \<Longrightarrow> length video < unat s - unat i \<Longrightarrow>
   skipLoop i s frame video =
     (replicate (length video) (VideoRead True) @ [VideoRead False], None)"
proof (induction video arbitrary: i frame)
  case Nil
  then have "i < s" by (simp add: word_less_nat_alt)
  then show ?case by simp
next
  case (Cons f fs)
  then have True: "i < s" by (simp add: word_less_nat_alt)
  then have u: "unat (i + 1) = Suc (unat i)" by (rule unat_plus_one)
  from True have lt: "unat i < unat s" by (simp add: word_less_nat_alt)
  then have le: "i + 1 \<le> s" using u by (simp add: word_le_nat_alt)
  have k: "length fs < unat s - unat (i + 1)" using Cons.prems(2) u lt by simp
  show ?case using Cons.IH [OF le k, of f] True by simp
qed

lemma run_short:
  assumes "VideoCapture E (mediaFilepath cfg) = Some video"
    and "length video < unat (startFrame cfg)"
  shows "run E cfg =
           (VideoOpen (mediaFilepath cfg) # replicate (length video) (VideoRead True)
              @ [VideoRead False, Cerr ''Start frame was greater than video length.''],
            Returned (- 1))"
  using assms skipLoop_short [of 0 "startFrame cfg" video emptyMat]
  by (simp add: run_def)

lemma run_skipped:
  assumes "VideoCapture E (mediaFilepath cfg) = Some video"
    and "unat (startFrame cfg) \<le> length video"
  shows "run E cfg =
           (VideoOpen (mediaFilepath cfg) # replicate (unat (startFrame cfg)) (VideoRead True)
              @ fst (mainLoop E cfg (getDictFromName E (dictionaryName cfg))
                      (cameraMatrix cfg (if unat (startFrame cfg) = 0 then emptyMat
                                         else video ! (unat (startFrame cfg) - 1)))
                      (startFrame cfg) (drop (unat (startFrame cfg)) video)),
            snd (mainLoop E cfg (getDictFromName E (dictionaryName cfg))
                      (cameraMatrix cfg (if unat (startFrame cfg) = 0 then emptyMat
                                         else video ! (unat (startFrame cfg) - 1)))
                      (startFrame cfg) (drop (unat (startFrame cfg)) video)))"
  using assms skipLoop_enough [of 0 "startFrame cfg" video emptyMat]
  by (simp add: run_def split: prod.splits)

text \<open>The counter is written as a signed \<open>int\<close>.\<close>

lemma sint_small: "unat (s :: 32 word) < 2 ^ 31 \<Longrightarrow> sint s = int (unat s)"
proof -
  assume a: "unat s < 2 ^ 31"
  have u: "uint s = int (unat s)" by simp
  have "int (unat s) < 2 ^ 31" using a by (metis of_nat_less_numeral_power_cancel_iff)
  with u have hi: "uint s < 2 ^ 31" by simp
  have lo: "- (2 ^ 31) \<le> uint s"
    by (rule order_trans [of _ 0]) simp_all
  have "signed_take_bit 31 (uint s) = uint s"
    using lo hi by (rule signed_take_bit_int_eq_self)
  then show ?thesis by (simp add: sint_uint)
qed

text \<open>Standard output of the loops.\<close>

lemma stdout_of_append: "stdout_of (xs @ ys) = stdout_of xs @ stdout_of ys"
  by (induction xs rule: stdout_of.induct) auto

lemma stdout_of_reads: "stdout_of (replicate n (VideoRead b)) = []"
  by (induction n) auto

lemma stdout_of_solveLoop: "stdout_of (fst (solveLoop E obj cam dc cs)) = []"
  by (induction cs) (auto split: sum.splits prod.splits)

text \<open>
  A frame in which markers were detected writes nothing: only the pose loop runs.
\<close>

lemma detected_frame_no_output:
  "detectMarkers E f dictionary = Inr (markerCorners, markerIds) \<Longrightarrow> markerIds \<noteq> [] \<Longrightarrow>
   stdout_of (fst (frameBody E cfg dictionary cam i f)) = []"
  by (simp add: frameBody_def stdout_of_solveLoop)

text \<open>Every line a run writes is the record of an empty frame.\<close>

lemma stdout_of_frameBody:
  "set (stdout_of (fst (frameBody E cfg dictionary cam i f))) \<subseteq> range emptyFrameLine"
  by (auto simp add: frameBody_def stdout_of_solveLoop split: sum.splits)

lemma stdout_of_mainLoop:
  "set (stdout_of (fst (mainLoop E cfg dictionary cam i video))) \<subseteq> range emptyFrameLine"
proof (induction video arbitrary: i)
  case Nil
  show ?case by simp
next
  case (Cons f fs)
  show ?case
    using Cons.IH [of "i + 1"] stdout_of_frameBody [of E cfg dictionary cam i f]
    by (auto simp add: stdout_of_append split: prod.splits option.splits)
qed

lemma stdout_of_skipLoop: "stdout_of (fst (skipLoop i s frame video)) = []"
proof (induction video arbitrary: i frame)
  case Nil
  show ?case by simp
next
  case (Cons f fs)
  show ?case using Cons.IH [of "i + 1" f] by (auto split: prod.splits)
qed

lemma stdout_of_run: "set (stdout_of (fst (run E cfg))) \<subseteq> range emptyFrameLine"
proof (cases "VideoCapture E (mediaFilepath cfg)")
  case None
  then show ?thesis by (simp add: run_def)
next
  case (Some video)
  obtain evs r where sk: "skipLoop 0 (startFrame cfg) emptyMat video = (evs, r)"
    by (cases "skipLoop 0 (startFrame cfg) emptyMat video")
  then have e: "stdout_of evs = []"
    using stdout_of_skipLoop [of 0 "startFrame cfg" emptyMat video] by simp
  show ?thesis
  proof (cases r)
    case None
    with Some sk e show ?thesis by (simp add: run_def stdout_of_append)
  next
    case (Some fr)
    obtain frame rest where fr: "fr = (frame, rest)" by (cases fr)
    show ?thesis
      using \<open>VideoCapture E (mediaFilepath cfg) = Some video\<close> sk Some fr e
        stdout_of_mainLoop [of E cfg "getDictFromName E (dictionaryName cfg)"
          "cameraMatrix cfg frame" "startFrame cfg" rest]
      by (auto simp add: run_def stdout_of_append split: prod.splits)
  qed
qed

lemma stdout_of_main: "set (stdout_of (fst (main E argv))) \<subseteq> range emptyFrameLine"
  using stdout_of_run [of E] by (auto simp add: main_def split: sum.splits)

lemma mainLoop_empty_frame:
  assumes "i < endFrame cfg \<or> endFrame cfg = 0"
    and "detectMarkers E f dictionary = Inr (markerCorners, [])"
  shows "mainLoop E cfg dictionary cam i (f # fs) =
           (VideoRead True # (if printEmptyFrames cfg then [Cout (emptyFrameLine i)] else [])
              @ fst (mainLoop E cfg dictionary cam (i + 1) fs),
            snd (mainLoop E cfg dictionary cam (i + 1) fs))"
  using assms by (auto simp add: frameBody_def split: prod.splits)

text \<open>
  With start frame 0 no frame has been read when the camera matrix is filled in: it is
  built from the empty \<open>frame\<close>, whose \<open>cols\<close> and \<open>rows\<close> are 0. Every run of \<open>main\<close>
  has start frame 0.
\<close>

lemma run_camera_start0:
  assumes "VideoCapture E (mediaFilepath cfg) = Some video" and "startFrame cfg = 0"
  shows "run E cfg =
           (VideoOpen (mediaFilepath cfg)
              # fst (mainLoop E cfg (getDictFromName E (dictionaryName cfg))
                      (cameraMatrix cfg emptyMat) 0 video),
            snd (mainLoop E cfg (getDictFromName E (dictionaryName cfg))
                      (cameraMatrix cfg emptyMat) 0 video))"
  using assms run_skipped [of E cfg video] by simp

lemma main_parsed:
  assumes "parseArgs E argv = Inr cfg" and "\<not> quit cfg"
    and "VideoCapture E (mediaFilepath cfg) = Some video"
  shows "main E argv =
           (VideoOpen (mediaFilepath cfg)
              # fst (mainLoop E cfg (getDictFromName E (dictionaryName cfg))
                      (cameraMatrix cfg emptyMat) 0 video),
            snd (mainLoop E cfg (getDictFromName E (dictionaryName cfg))
                      (cameraMatrix cfg emptyMat) 0 video))"
  using assms run_camera_start0 [OF assms(3) parseArgs_startFrame [OF assms(1)]]
  by (simp add: main_def)

lemma main_focalmm:
  "4 \<le> length pre \<Longrightarrow> main E (pre @ (''--focalmm='' @ F) # post) = main E (pre @ post)"
  unfolding main_def by (simp only: parseArgs_focalmm)

text \<open>The pose loop calls \<open>solvePnP\<close> with the camera matrix it was given, and no other.\<close>

lemma cameras_of_append: "cameras_of (xs @ ys) = cameras_of xs @ cameras_of ys"
  by (induction xs rule: cameras_of.induct) auto

lemma cameras_of_reads: "cameras_of (replicate n (VideoRead b)) = []"
  by (induction n) auto

lemma cameras_of_solveLoop: "set (cameras_of (fst (solveLoop E obj cam dc cs))) \<subseteq> {cam}"
  by (induction cs) (auto split: sum.splits prod.splits)

lemma cameras_of_frameBody:
  "set (cameras_of (fst (frameBody E cfg dictionary cam i f))) \<subseteq> {cam}"
  using cameras_of_solveLoop [of E "objPoints cfg" cam cameraDistortion]
  by (auto simp add: frameBody_def split: sum.splits)

lemma cameras_of_mainLoop:
  "set (cameras_of (fst (mainLoop E cfg dictionary cam i video))) \<subseteq> {cam}"
proof (induction video arbitrary: i)
  case Nil
  show ?case by simp
next
  case (Cons f fs)
  show ?case
    using Cons.IH [of "i + 1"] cameras_of_frameBody [of E cfg dictionary cam i f]
    by (auto simp add: cameras_of_append split: prod.splits option.splits)
qed

lemma cameras_of_main:
  assumes "cam \<in> set (cameras_of (fst (main E argv)))"
  shows "\<exists>cfg. parseArgs E argv = Inr cfg \<and> cam = cameraMatrix cfg emptyMat"
proof (cases "parseArgs E argv")
  case (Inl e)
  with assms show ?thesis by (simp add: main_def)
next
  case (Inr cfg)
  show ?thesis
  proof (cases "quit cfg")
    case True
    with Inr assms show ?thesis by (simp add: main_def)
  next
    case False
    show ?thesis
    proof (cases "VideoCapture E (mediaFilepath cfg)")
      case None
      with Inr False assms show ?thesis by (simp add: main_def run_def)
    next
      case (Some video)
      have "cam \<in> set (cameras_of (fst (mainLoop E cfg (getDictFromName E (dictionaryName cfg))
                (cameraMatrix cfg emptyMat) 0 video)))"
        using assms main_parsed [OF Inr False Some] by simp
      then have "cam = cameraMatrix cfg emptyMat"
        using cameras_of_mainLoop [of E cfg "getDictFromName E (dictionaryName cfg)"
            "cameraMatrix cfg emptyMat" 0 video]
        by blast
      with Inr show ?thesis by simp
    qed
  qed
qed

lemma mainLoop_detected_frame:
  assumes "i < endFrame cfg \<or> endFrame cfg = 0"
    and "detectMarkers E f dictionary = Inr (c # cs, markerIds)" and "markerIds \<noteq> []"
  shows "\<exists>evs st. mainLoop E cfg dictionary cam i (f # fs) =
           (VideoRead True # SolvePnP (objPoints cfg) c cam cameraDistortion # evs, st)"
  using assms by (auto simp add: frameBody_def split: sum.splits prod.splits option.splits)

text \<open>
  What the pose loop does with the answer of \<open>solvePnP\<close>: an exception ends the run, and
  a returned value is not looked at.
\<close>

lemma solveLoop_throws:
  "c \<in> set cs \<Longrightarrow> solvePnP E obj c cam dc = Inl e \<Longrightarrow>
   \<exists>evs e'. solveLoop E obj cam dc cs = (evs, Some e')"
  by (induction cs) (auto split: sum.splits prod.splits)

lemma solve_exception_ends_run:
  assumes "i < endFrame cfg \<or> endFrame cfg = 0"
    and "detectMarkers E f dictionary = Inr (markerCorners, markerIds)" and "markerIds \<noteq> []"
    and "c \<in> set markerCorners"
    and "solvePnP E (objPoints cfg) c cam cameraDistortion = Inl e"
  shows "\<exists>evs e'. mainLoop E cfg dictionary cam i (f # fs) = (evs, Terminated e')
           \<and> stdout_of evs = []"
proof -
  obtain evs e' where
    s: "solveLoop E (objPoints cfg) cam cameraDistortion markerCorners = (evs, Some e')"
    using solveLoop_throws [OF assms(4,5)] by blast
  have "stdout_of evs = []"
    using stdout_of_solveLoop [of E "objPoints cfg" cam cameraDistortion markerCorners] s
    by simp
  then show ?thesis using assms(1-3) s by (simp add: frameBody_def)
qed

lemma solve_value_ignored:
  "\<forall>c\<in>set cs. \<exists>r. solvePnP E obj c cam dc = Inr r \<Longrightarrow>
   solveLoop E obj cam dc cs = (map (\<lambda>c. SolvePnP obj c cam dc) cs, None)"
  by (induction cs) (auto split: sum.splits prod.splits)

text \<open>The two configuration paths of \<open>main\<close>: too few arguments, and a size that is no number.\<close>

lemma main_too_few_arguments:
  "length argv < 4 \<Longrightarrow>
   main E argv =
     ([Cerr (if helpRequested argv then usageMessage else notEnoughMessage)], Returned (- 1))"
  by (auto simp add: main_def parseArgs_def)

lemma main_stof_throws:
  "4 \<le> length argv \<Longrightarrow> \<not> helpRequested argv \<Longrightarrow> stof E (argv ! 3) = Inl e \<Longrightarrow>
   main E argv = ([], Terminated e)"
  by (auto simp add: main_def parseArgs_def)

text \<open>
  After the skip, the first frame of the main loop is the one at position \<open>startFrame\<close>,
  with that counter; when it has no detections its record is the first line written.
\<close>

lemma run_first_record_at_start:
  assumes v: "VideoCapture E (mediaFilepath cfg) = Some video"
    and len: "unat (startFrame cfg) < length video"
    and small: "unat (startFrame cfg) < 2 ^ 31"
    and bound: "startFrame cfg < endFrame cfg \<or> endFrame cfg = 0"
    and flag: "printEmptyFrames cfg"
    and det: "detectMarkers E (video ! unat (startFrame cfg))
                (getDictFromName E (dictionaryName cfg)) = Inr (markerCorners, [])"
  shows \<open>\<exists>rest. stdout_of (fst (run E cfg)) =
           (''{"frame_id":'' @ show_int (int (unat (startFrame cfg))) @ '', detections:[]}'')
             # rest\<close>
proof -
  let ?s = "startFrame cfg"
  let ?d = "getDictFromName E (dictionaryName cfg)"
  let ?cam = "cameraMatrix cfg (if unat ?s = 0 then emptyMat else video ! (unat ?s - 1))"
  have d: "drop (unat ?s) video = video ! unat ?s # drop (Suc (unat ?s)) video"
    using len by (simp add: Cons_nth_drop_Suc)
  have r: "run E cfg =
      (VideoOpen (mediaFilepath cfg) # replicate (unat ?s) (VideoRead True)
         @ fst (mainLoop E cfg ?d ?cam ?s (drop (unat ?s) video)),
       snd (mainLoop E cfg ?d ?cam ?s (drop (unat ?s) video)))"
    using v len run_skipped [of E cfg video] by simp
  have m: "mainLoop E cfg ?d ?cam ?s (video ! unat ?s # drop (Suc (unat ?s)) video) =
      (VideoRead True # [Cout (emptyFrameLine ?s)]
         @ fst (mainLoop E cfg ?d ?cam (?s + 1) (drop (Suc (unat ?s)) video)),
       snd (mainLoop E cfg ?d ?cam (?s + 1) (drop (Suc (unat ?s)) video)))"
    using flag mainLoop_empty_frame [OF bound det, of ?cam "drop (Suc (unat ?s)) video"]
    by simp
  have l: \<open>emptyFrameLine ?s =
      ''{"frame_id":'' @ show_int (int (unat ?s)) @ '', detections:[]}''\<close>
    using small by (simp add: emptyFrameLine_def sint_small)
  show ?thesis
    unfolding r d m by (simp add: stdout_of_append stdout_of_reads l)
qed

subsection \<open>C1: a record for every frame with a detection\<close>

text \<open>
  C1. For every processed frame in which at least one marker is detected the program is
  to emit exactly one record on standard output. It does not: for
  \<^verbatim>\<open>app video.mp4 ARUCO 50.0\<close> on the example stream, whose second frame shows
  marker 7, the pose solver is called for that marker and the run returns 0, but nothing
  is written: the record that \<open>printJSONL\<close> would write for that frame is not, since
  \<open>printJSONL\<close> is never called.
\<close>

theorem C1_detected_frame_not_emitted:
  \<open>main exampleEnv [''app'', ''video.mp4'', ''ARUCO'', ''50.0''] =
     ([VideoOpen ''video.mp4'', VideoRead True, VideoRead True,
       SolvePnP [(- 25, 25, 0), (25, 25, 0), (25, - 25, 0), (- 25, - 25, 0)]
         [(10, 10), (20, 10), (20, 20), (10, 20)]
         \<lparr>mrows = 3, mcols = 3, mchannels = 3,
            cells =
              [Some 1, Some 0, Some 0, None, None, None, None, None, None,
               Some 0, Some 1, Some 0, None, None, None, None, None, None,
               Some 0, Some 0, Some 1, None, None, None, None, None, None]\<rparr>
         \<lparr>mrows = 4, mcols = 1, mchannels = 1, cells = [Some 0, Some 0, Some 0, Some 0]\<rparr>,
       VideoRead True, VideoRead False],
      Returned 0)
   \<and> detectMarkers exampleEnv markerFrame DICT_ARUCO_ORIGINAL = Inr ([exampleCorners], [7])
   \<and> printJSONL 1 [7] [exampleCorners] [(0, 0, 1)] [(0, 0, 0)] =
       Cout ''{"frame_id":1,"detections":[{"marker_id":7,}]}''\<close>
  by (simp add: run_defs example_defs printJSONL_def replicate_numeral)

subsection \<open>C2: the dictionary resolver\<close>

text \<open>
  The name \<open>BOGUS\<close> is no error: the run reads all three frames, writes the records of
  the two empty ones and returns 0.
\<close>

theorem C2_unknown_name_counterexample:
  \<open>main exampleEnv [''app'', ''video.mp4'', ''BOGUS'', ''50.0'', ''--print-empty-frames''] =
     ([VideoOpen ''video.mp4'', VideoRead True, Cout ''{"frame_id":0, detections:[]}'',
       VideoRead True,
       SolvePnP [(- 25, 25, 0), (25, 25, 0), (25, - 25, 0), (- 25, - 25, 0)]
         [(10, 10), (20, 10), (20, 20), (10, 20)]
         \<lparr>mrows = 3, mcols = 3, mchannels = 3,
            cells =
              [Some 1, Some 0, Some 0, None, None, None, None, None, None,
               Some 0, Some 1, Some 0, None, None, None, None, None, None,
               Some 0, Some 0, Some 1, None, None, None, None, None, None]\<rparr>
         \<lparr>mrows = 4, mcols = 1, mchannels = 1, cells = [Some 0, Some 0, Some 0, Some 0]\<rparr>,
       VideoRead True, Cout ''{"frame_id":2, detections:[]}'', VideoRead False],
      Returned 0)\<close>
  by (simp add: run_defs example_defs replicate_numeral)

text \<open>
  C2, amended. Each of the six supported names resolves to its predefined codebook,
  \<open>DEFAULT\<close> and \<open>ARUCO\<close> to the same one. The resolver has no failure: for every other
  name the lookup yields the zero enumerator and the predefined codebook \<open>DICT_4X4_50\<close>
  is returned. The run is not aborted by such a name: when the arguments parse with it
  as the dictionary name and the media opens, \<open>main\<close> is the main loop over all frames
  of the stream with the codebook \<open>DICT_4X4_50\<close>.
\<close>

theorem C2_getDictFromName:
  "getDictFromName E ''DEFAULT'' = getPredefinedDictionary E DICT_ARUCO_ORIGINAL
   \<and> getDictFromName E ''ARUCO'' = getPredefinedDictionary E DICT_ARUCO_ORIGINAL
   \<and> getDictFromName E ''APRILTAG_16H5'' = getPredefinedDictionary E DICT_APRILTAG_16h5
   \<and> getDictFromName E ''APRILTAG_25H9'' = getPredefinedDictionary E DICT_APRILTAG_25h9
   \<and> getDictFromName E ''APRILTAG_36H10'' = getPredefinedDictionary E DICT_APRILTAG_36h10
   \<and> getDictFromName E ''APRILTAG_36H11'' = getPredefinedDictionary E DICT_APRILTAG_36h11
   \<and> (name \<notin> {''DEFAULT'', ''ARUCO'', ''APRILTAG_16H5'', ''APRILTAG_25H9'',
                 ''APRILTAG_36H10'', ''APRILTAG_36H11''}
        \<longrightarrow> getDictFromName E name = getPredefinedDictionary E DICT_4X4_50)
   \<and> (\<not> helpRequested argv \<and> 4 \<le> length argv \<and> stof E (argv ! 3) = Inr m
        \<and> argv ! 2 \<notin> {''DEFAULT'', ''ARUCO'', ''APRILTAG_16H5'', ''APRILTAG_25H9'',
                 ''APRILTAG_36H10'', ''APRILTAG_36H11''}
        \<and> VideoCapture E (argv ! 1) = Some video
        \<longrightarrow> (\<exists>cfg. parseArgs E argv = Inr cfg \<and> dictionaryName cfg = argv ! 2
               \<and> main E argv =
                   (VideoOpen (argv ! 1)
                      # fst (mainLoop E cfg (getPredefinedDictionary E DICT_4X4_50)
                              (cameraMatrix cfg emptyMat) 0 video),
                    snd (mainLoop E cfg (getPredefinedDictionary E DICT_4X4_50)
                              (cameraMatrix cfg emptyMat) 0 video))))"
proof -
  have names: "getDictFromName E n = getPredefinedDictionary E DICT_4X4_50"
    if "n \<notin> {''DEFAULT'', ''ARUCO'', ''APRILTAG_16H5'', ''APRILTAG_25H9'',
                 ''APRILTAG_36H10'', ''APRILTAG_36H11''}" for n
    using that by (simp add: getDictFromName_def supported_at_def supported_def)
  have runs: "\<exists>cfg. parseArgs E argv = Inr cfg \<and> dictionaryName cfg = argv ! 2
               \<and> main E argv =
                   (VideoOpen (argv ! 1)
                      # fst (mainLoop E cfg (getPredefinedDictionary E DICT_4X4_50)
                              (cameraMatrix cfg emptyMat) 0 video),
                    snd (mainLoop E cfg (getPredefinedDictionary E DICT_4X4_50)
                              (cameraMatrix cfg emptyMat) 0 video))"
    if h: "\<not> helpRequested argv" "4 \<le> length argv" "stof E (argv ! 3) = Inr m"
      "argv ! 2 \<notin> {''DEFAULT'', ''ARUCO'', ''APRILTAG_16H5'', ''APRILTAG_25H9'',
                 ''APRILTAG_36H10'', ''APRILTAG_36H11''}"
      "VideoCapture E (argv ! 1) = Some video"
  proof -
    obtain cfg where c: "parseArgs E argv = Inr cfg" "\<not> quit cfg"
      "mediaFilepath cfg = argv ! 1" "dictionaryName cfg = argv ! 2"
      using parseArgs_positional [OF h(1,2,3)] by blast
    have v: "VideoCapture E (mediaFilepath cfg) = Some video" using c(3) h(5) by simp
    have "main E argv =
        (VideoOpen (mediaFilepath cfg)
           # fst (mainLoop E cfg (getDictFromName E (dictionaryName cfg))
                   (cameraMatrix cfg emptyMat) 0 video),
         snd (mainLoop E cfg (getDictFromName E (dictionaryName cfg))
                   (cameraMatrix cfg emptyMat) 0 video))"
      by (rule main_parsed [OF c(1,2) v])
    then show ?thesis using c names [OF h(4)] by simp
  qed
  show ?thesis
    using names [of name] runs
    by (simp add: getDictFromName_def supported_at_def supported_def)
qed

theorem C2_getDictFromName_witness:
  \<open>\<not> helpRequested [''app'', ''video.mp4'', ''aruco'', ''50.0'', ''--print-empty-frames'']
   \<and> (4 :: nat) \<le> length [''app'', ''video.mp4'', ''aruco'', ''50.0'', ''--print-empty-frames'']
   \<and> stof exampleEnv
         ([''app'', ''video.mp4'', ''aruco'', ''50.0'', ''--print-empty-frames''] ! 3) = Inr 50
   \<and> [''app'', ''video.mp4'', ''aruco'', ''50.0'', ''--print-empty-frames''] ! 2
        \<notin> {''DEFAULT'', ''ARUCO'', ''APRILTAG_16H5'', ''APRILTAG_25H9'',
                 ''APRILTAG_36H10'', ''APRILTAG_36H11''}
   \<and> VideoCapture exampleEnv
         ([''app'', ''video.mp4'', ''aruco'', ''50.0'', ''--print-empty-frames''] ! 1) =
       Some [blankFrame, markerFrame, blankFrame]
   \<and> getDictFromName exampleEnv ''aruco'' = DICT_4X4_50
   \<and> getDictFromName exampleEnv ''DEFAULT'' = getDictFromName exampleEnv ''ARUCO''
   \<and> main exampleEnv [''app'', ''video.mp4'', ''aruco'', ''50.0'', ''--print-empty-frames''] =
       ([VideoOpen ''video.mp4'', VideoRead True, Cout ''{"frame_id":0, detections:[]}'',
         VideoRead True,
         SolvePnP [(- 25, 25, 0), (25, 25, 0), (25, - 25, 0), (- 25, - 25, 0)]
         [(10, 10), (20, 10), (20, 20), (10, 20)]
         \<lparr>mrows = 3, mcols = 3, mchannels = 3,
            cells =
              [Some 1, Some 0, Some 0, None, None, None, None, None, None,
               Some 0, Some 1, Some 0, None, None, None, None, None, None,
               Some 0, Some 0, Some 1, None, None, None, None, None, None]\<rparr>
         \<lparr>mrows = 4, mcols = 1, mchannels = 1, cells = [Some 0, Some 0, Some 0, Some 0]\<rparr>,
         VideoRead True, Cout ''{"frame_id":2, detections:[]}'', VideoRead False],
        Returned 0)\<close>
  using
    C2_getDictFromName [where E = exampleEnv and name = "''aruco''"
      and argv = "[''app'', ''video.mp4'', ''aruco'', ''50.0'', ''--print-empty-frames'']"
      and m = 50 and video = "[blankFrame, markerFrame, blankFrame]"]
  by (simp add: run_defs example_defs replicate_numeral)

subsection \<open>C3: frames without detections\<close>

text \<open>
  C3. For every processed frame with zero detected markers, a record is emitted on
  standard output if and only if the print-empty-frames flag is set, and the emitted
  record's detection list is empty: an iteration of the main loop whose frame was read
  and in which \<open>markerIds\<close> came back empty writes the one line
  \<^verbatim>\<open>{"frame_id":i, detections:[]}\<close> when the flag is set and nothing otherwise, and
  goes on with the next frame.
\<close>

theorem C3_empty_frame_record:
  assumes "i < endFrame cfg \<or> endFrame cfg = 0"
    and "detectMarkers E f dictionary = Inr (markerCorners, [])"
  shows "mainLoop E cfg dictionary cam i (f # fs) =
           (VideoRead True # (if printEmptyFrames cfg then [Cout (emptyFrameLine i)] else [])
              @ fst (mainLoop E cfg dictionary cam (i + 1) fs),
            snd (mainLoop E cfg dictionary cam (i + 1) fs))
         \<and> (stdout_of (fst (frameBody E cfg dictionary cam i f)) \<noteq> []
              \<longleftrightarrow> printEmptyFrames cfg)
         \<and> (printEmptyFrames cfg \<longrightarrow>
              stdout_of (fst (frameBody E cfg dictionary cam i f)) = [emptyFrameLine i])"
  using assms mainLoop_empty_frame [OF assms, of cam fs]
  by (simp add: frameBody_def)

theorem C3_empty_frame_record_witness:
  \<open>((7 :: 32 word) < endFrame exampleCfg \<or> endFrame exampleCfg = 0)
   \<and> detectMarkers exampleEnv blankFrame DICT_ARUCO_ORIGINAL = Inr ([], [])
   \<and> mainLoop exampleEnv exampleCfg DICT_ARUCO_ORIGINAL (cameraMatrix exampleCfg emptyMat) 7
        [blankFrame] =
       ([VideoRead True, Cout ''{"frame_id":7, detections:[]}'', VideoRead False], Returned 0)
   \<and> mainLoop exampleEnv (exampleCfg\<lparr>printEmptyFrames := False\<rparr>) DICT_ARUCO_ORIGINAL
        (cameraMatrix exampleCfg emptyMat) 7 [blankFrame] =
       ([VideoRead True, VideoRead False], Returned 0)\<close>
  using
    C3_empty_frame_record [of 7 exampleCfg exampleEnv blankFrame DICT_ARUCO_ORIGINAL "[]"
      "cameraMatrix exampleCfg emptyMat" "[]"]
    C3_empty_frame_record [of 7 "exampleCfg\<lparr>printEmptyFrames := False\<rparr>" exampleEnv blankFrame
      DICT_ARUCO_ORIGINAL "[]" "cameraMatrix exampleCfg emptyMat" "[]"]
  by (simp add: example_defs emptyFrameLine_def show_int_def show_nat.simps)

subsection \<open>C4: the camera model\<close>

text \<open>
  C4. The camera matrix is to have its principal point at (frame width / 2,
  frame height / 2). For \<^verbatim>\<open>app video.mp4 ARUCO 50.0\<close> on the example stream of
  640 by 480 frames, the matrix given to the pose solver has the principal point (0, 0):
  it is filled in before the first frame is read.
\<close>

theorem C4_principal_point_zero:
  "cameras_of (fst (main exampleEnv [''app'', ''video.mp4'', ''ARUCO'', ''50.0''])) =
     [\<lparr>mrows = 3, mcols = 3, mchannels = 3,
            cells =
              [Some 1, Some 0, Some 0, None, None, None, None, None, None,
               Some 0, Some 1, Some 0, None, None, None, None, None, None,
               Some 0, Some 0, Some 1, None, None, None, None, None, None]\<rparr>]
   \<and> at_float (cameraMatrix exampleCfg emptyMat) 0 2 = Some 0
   \<and> at_float (cameraMatrix exampleCfg emptyMat) 1 2 = Some 0
   \<and> cols markerFrame = 640 \<and> rows markerFrame = 480"
  by (simp add: run_defs example_defs replicate_numeral)

subsection \<open>C5: skipping to the start frame\<close>


subsection \<open>C6: the help flag\<close>

text \<open>\<^verbatim>\<open>app --help\<close> writes the usage text on standard error and returns -1, not 0.\<close>

theorem C6_exit_code_counterexample:
  "main exampleEnv [''app'', ''--help''] = ([Cerr usageMessage], Returned (- 1))"
  by (simp add: run_defs example_defs)

text \<open>
  C6, amended. For every invocation whose argument list contains \<open>-h\<close> or \<open>--help\<close>,
  the program writes the usage text on standard error and returns -1, before any other
  argument is looked at: whatever the other arguments are, that line is all the run does.
\<close>

theorem C6_help:
  assumes "''-h'' \<in> set argv \<or> ''--help'' \<in> set argv"
  shows "main E argv = ([Cerr usageMessage], Returned (- 1))"
  using assms by (auto simp add: main_def parseArgs_def helpRequested_iff)

theorem C6_help_witness:
  "(''-h'' \<in> set [''app'', ''nope.mp4'', ''BOGUS'', ''abc'', ''-h'']
      \<or> ''--help'' \<in> set [''app'', ''nope.mp4'', ''BOGUS'', ''abc'', ''-h''])
   \<and> main exampleEnv [''app'', ''nope.mp4'', ''BOGUS'', ''abc'', ''-h''] =
       ([Cerr usageMessage], Returned (- 1))"
  using C6_help [of "[''app'', ''nope.mp4'', ''BOGUS'', ''abc'', ''-h'']" exampleEnv]
  by simp

subsection \<open>C7: the focal length\<close>

text \<open>
  C7. For every invocation, the camera focal length used by the pipeline is 1.0, and a
  supplied \<open>--focalmm=F\<close> argument is accepted but has no effect. Every run of \<open>main\<close>
  whose arguments parse and whose media opens is the main loop with the camera matrix
  built from a configuration of focal length 1, the two focal-length cells of that matrix
  holding 1; a frame of the loop in which markers are detected hands exactly that matrix
  to \<open>solvePnP\<close>; no run of \<open>main\<close> hands \<open>solvePnP\<close> a matrix with another focal
  length; and an argument \<open>--focalmm=F\<close> after the three positional ones leaves the
  whole run as it is without that argument.
\<close>

theorem C7_focal_length:
  "(parseArgs E argv = Inr cfg \<and> \<not> quit cfg \<and> VideoCapture E (mediaFilepath cfg) = Some video
      \<longrightarrow> cameraFocalLengthMM cfg = 1
          \<and> at_float (cameraMatrix cfg emptyMat) 0 0 = Some 1
          \<and> at_float (cameraMatrix cfg emptyMat) 1 1 = Some 1
          \<and> main E argv =
              (VideoOpen (mediaFilepath cfg)
                 # fst (mainLoop E cfg (getDictFromName E (dictionaryName cfg))
                         (cameraMatrix cfg emptyMat) 0 video),
               snd (mainLoop E cfg (getDictFromName E (dictionaryName cfg))
                         (cameraMatrix cfg emptyMat) 0 video)))
   \<and> ((i < endFrame cfg' \<or> endFrame cfg' = 0)
        \<and> detectMarkers E f dictionary = Inr (c # cs, markerIds) \<and> markerIds \<noteq> []
        \<longrightarrow> (\<exists>evs st. mainLoop E cfg' dictionary cam i (f # fs) =
               (VideoRead True # SolvePnP (objPoints cfg') c cam cameraDistortion # evs, st)))
   \<and> (\<forall>cam' \<in> set (cameras_of (fst (main E argv))).
         at_float cam' 0 0 = Some 1 \<and> at_float cam' 1 1 = Some 1)
   \<and> (4 \<le> length pre \<longrightarrow>
        main E (pre @ (''--focalmm='' @ F) # post) = main E (pre @ post))"
proof (intro conjI impI ballI)
  assume h: "parseArgs E argv = Inr cfg \<and> \<not> quit cfg
      \<and> VideoCapture E (mediaFilepath cfg) = Some video"
  then show f: "cameraFocalLengthMM cfg = 1" using parseArgs_focal [of E argv cfg] by simp
  show "at_float (cameraMatrix cfg emptyMat) 0 0 = Some 1"
    using f cameraMatrix_focal(1) [of cfg emptyMat] by simp
  show "at_float (cameraMatrix cfg emptyMat) 1 1 = Some 1"
    using f cameraMatrix_focal(2) [of cfg emptyMat] by simp
  show "main E argv =
      (VideoOpen (mediaFilepath cfg)
         # fst (mainLoop E cfg (getDictFromName E (dictionaryName cfg))
                 (cameraMatrix cfg emptyMat) 0 video),
       snd (mainLoop E cfg (getDictFromName E (dictionaryName cfg))
                 (cameraMatrix cfg emptyMat) 0 video))"
    using h by (simp add: main_parsed)
next
  assume "(i < endFrame cfg' \<or> endFrame cfg' = 0)
      \<and> detectMarkers E f dictionary = Inr (c # cs, markerIds) \<and> markerIds \<noteq> []"
  then show "\<exists>evs st. mainLoop E cfg' dictionary cam i (f # fs) =
      (VideoRead True # SolvePnP (objPoints cfg') c cam cameraDistortion # evs, st)"
    using mainLoop_detected_frame [of i cfg' E f dictionary c cs markerIds cam fs] by simp
next
  fix cam'
  assume "cam' \<in> set (cameras_of (fst (main E argv)))"
  then obtain cfg0 where c: "parseArgs E argv = Inr cfg0" "cam' = cameraMatrix cfg0 emptyMat"
    using cameras_of_main by blast
  then have f: "cameraFocalLengthMM cfg0 = 1" by (simp add: parseArgs_focal)
  show "at_float cam' 0 0 = Some 1"
    using c(2) f cameraMatrix_focal(1) [of cfg0 emptyMat] by simp
  show "at_float cam' 1 1 = Some 1"
    using c(2) f cameraMatrix_focal(2) [of cfg0 emptyMat] by simp
next
  assume "4 \<le> length pre"
  then show "main E (pre @ (''--focalmm='' @ F) # post) = main E (pre @ post)"
    by (rule main_focalmm)
qed

theorem C7_focal_length_witness:
  \<open>parseArgs exampleEnv [''app'', ''video.mp4'', ''ARUCO'', ''50.0'', ''--focalmm=35''] =
     Inr \<lparr>mediaFilepath = ''video.mp4'', dictionaryName = ''ARUCO'', markerSizeMM = 50,
          cameraFocalLengthMM = 1, startFrame = 0, endFrame = 0, quit = False,
          printEmptyFrames = False, errorMessage = []\<rparr>
   \<and> VideoCapture exampleEnv ''video.mp4'' = Some [blankFrame, markerFrame, blankFrame]
   \<and> detectMarkers exampleEnv markerFrame DICT_ARUCO_ORIGINAL = Inr ([exampleCorners], [7])
   \<and> (4 :: nat) \<le> length [''app'', ''video.mp4'', ''ARUCO'', ''50.0'']
   \<and> main exampleEnv [''app'', ''video.mp4'', ''ARUCO'', ''50.0'', ''--focalmm=35''] =
       ([VideoOpen ''video.mp4'', VideoRead True, VideoRead True,
         SolvePnP [(- 25, 25, 0), (25, 25, 0), (25, - 25, 0), (- 25, - 25, 0)]
         [(10, 10), (20, 10), (20, 20), (10, 20)]
         \<lparr>mrows = 3, mcols = 3, mchannels = 3,
            cells =
              [Some 1, Some 0, Some 0, None, None, None, None, None, None,
               Some 0, Some 1, Some 0, None, None, None, None, None, None,
               Some 0, Some 0, Some 1, None, None, None, None, None, None]\<rparr>
         \<lparr>mrows = 4, mcols = 1, mchannels = 1, cells = [Some 0, Some 0, Some 0, Some 0]\<rparr>,
         VideoRead True, VideoRead False],
        Returned 0)
   \<and> main exampleEnv [''app'', ''video.mp4'', ''ARUCO'', ''50.0'', ''--focalmm=35''] =
       main exampleEnv [''app'', ''video.mp4'', ''ARUCO'', ''50.0'']\<close>
  using
    C7_focal_length [where E = exampleEnv
      and argv = "[''app'', ''video.mp4'', ''ARUCO'', ''50.0'', ''--focalmm=35'']"
      and cfg = "\<lparr>mediaFilepath = ''video.mp4'', dictionaryName = ''ARUCO'', markerSizeMM = 50,
          cameraFocalLengthMM = 1, startFrame = 0, endFrame = 0, quit = False,
          printEmptyFrames = False, errorMessage = []\<rparr>"
      and video = "[blankFrame, markerFrame, blankFrame]"
      and i = 1
      and cfg' = "\<lparr>mediaFilepath = ''video.mp4'', dictionaryName = ''ARUCO'', markerSizeMM = 50,
          cameraFocalLengthMM = 1, startFrame = 0, endFrame = 0, quit = False,
          printEmptyFrames = False, errorMessage = []\<rparr>"
      and f = markerFrame and dictionary = DICT_ARUCO_ORIGINAL and c = exampleCorners
      and cs = "[]" and markerIds = "[7]" and cam = "cameraMatrix exampleCfg emptyMat"
      and fs = "[blankFrame]"
      and pre = "[''app'', ''video.mp4'', ''ARUCO'', ''50.0'']" and F = "''35''" and post = "[]"]
  by (simp add: run_defs example_defs replicate_numeral)

subsection \<open>C8: configuration errors\<close>

text \<open>
  C8. A missing positional argument and a marker size that is no number are both to end
  the run with a message on standard error and the exit code -1. The first does:
  \<^verbatim>\<open>app video.mp4 ARUCO\<close> writes the message and returns -1. The second does not:
  for \<^verbatim>\<open>app video.mp4 ARUCO abc\<close> \<open>std::stof\<close> throws, nothing catches the
  exception, and the run ends in \<open>std::terminate\<close> without the program's message and
  without returning -1. No media is opened in either run.
\<close>

theorem C8_unparsable_size_terminates:
  "main exampleEnv [''app'', ''video.mp4'', ''ARUCO'', ''abc''] =
     ([], Terminated invalid_argument)
   \<and> stof exampleEnv ([''app'', ''video.mp4'', ''ARUCO'', ''abc''] ! 3) = Inl invalid_argument
   \<and> main exampleEnv [''app'', ''video.mp4'', ''ARUCO''] =
       ([Cerr notEnoughMessage], Returned (- 1))"
  by (simp add: run_defs example_defs)

subsection \<open>C9: a marker with degenerate corners\<close>


subsection \<open>C10: how the optional flags are matched\<close>

text \<open>
  C10. \<open>startsWith\<close> holds exactly when one of the two strings is a prefix of the other,
  that is, when they agree on the length of the shorter one. So for a run that gets past
  the positional arguments, the print-empty-frames flag is set exactly when some argument
  after the third positional one is a prefix of \<open>--print-empty-frames\<close> (such as
  \<open>--p\<close>, \<open>-\<close> or the empty string) or has it as a prefix.
\<close>

theorem C10_mutual_prefix:
  "(startsWith str match \<longleftrightarrow> prefix str match \<or> prefix match str)
   \<and> (parseArgs E argv = Inr cfg \<and> \<not> quit cfg \<longrightarrow>
        (printEmptyFrames cfg \<longleftrightarrow>
           (\<exists>arg\<in>set (drop 4 argv).
              prefix arg ''--print-empty-frames'' \<or> prefix ''--print-empty-frames'' arg)))"
  by (auto simp add: startsWith_prefix parseArgs_def Let_def extraArgs_eq
      split: if_splits sum.splits)

theorem C10_mutual_prefix_witness:
  "startsWith ''--p'' ''--print-empty-frames''
   \<and> startsWith [] ''--print-empty-frames''
   \<and> startsWith ''--print-empty-framesEXTRA'' ''--print-empty-frames''
   \<and> startsWith ''-'' ''--verbose''
   \<and> \<not> startsWith ''--q'' ''--print-empty-frames''
   \<and> parseArgs exampleEnv [''app'', ''video.mp4'', ''ARUCO'', ''50.0'', ''-''] =
       Inr \<lparr>mediaFilepath = ''video.mp4'', dictionaryName = ''ARUCO'', markerSizeMM = 50,
            cameraFocalLengthMM = 1, startFrame = 0, endFrame = 0, quit = False,
            printEmptyFrames = True, errorMessage = []\<rparr>"
  using
    C10_mutual_prefix [where str = "''--p''" and match = "''--print-empty-frames''"
      and E = exampleEnv and argv = "[''app'', ''video.mp4'', ''ARUCO'', ''50.0'', ''-'']"
      and cfg = "\<lparr>mediaFilepath = ''video.mp4'', dictionaryName = ''ARUCO'', markerSizeMM = 50,
            cameraFocalLengthMM = 1, startFrame = 0, endFrame = 0, quit = False,
            printEmptyFrames = True, errorMessage = []\<rparr>"]
  by (simp add: run_defs example_defs)

end
